theory Spec2Isabelle
  imports Main "HOL-Library.AList" "HOL-Library.Sublist"
begin

section \<open>Common ground: exceptions, log records, traces\<close>

text \<open>
  Every Python exception that the modelled code can raise is a value of \<open>error\<close>; a
  call that may raise returns \<open>error + 'a\<close> with \<open>Inl\<close> for the exception.  Calls to
  the logger and to collaborating tasks are recorded in a trace of events, in program
  order, so that "was logged" and "was executed" are properties of the returned trace.
\<close>

datatype error =
    AttributeError string
  | ValueError
  | TypeError
  | KeyError
  | IndexError
  | IOError string
  | ReError
  | Raised string

datatype level = DEBUG | INFO | WARNING | ERROR

datatype child = LoadOptions | BuildChannels | LoadPayload

datatype instr_class = Photometer | Spectrometer

datatype event =
    Logged level string
  | Called child
  | Opened string
  | Closed string
  | Constructed instr_class string
  | Built string
  | Written string
  | UnitCall string

type_synonym 'a traced = "event list \<times> (error + 'a)"

definition ret :: "'a \<Rightarrow> 'a traced" where
  "ret x = ([], Inr x)"

definition raise :: "error \<Rightarrow> 'a traced" where
  "raise e = ([], Inl e)"

definition emit :: "event \<Rightarrow> unit traced" where
  "emit ev = ([ev], Inr ())"

definition lift :: "error + 'a \<Rightarrow> 'a traced" where
  "lift r = ([], r)"

definition attempt :: "error + 'a \<Rightarrow> ('a \<Rightarrow> error + 'b) \<Rightarrow> error + 'b" where
  "attempt r f = (case r of Inl e \<Rightarrow> Inl e | Inr x \<Rightarrow> f x)"

text \<open>A list comprehension or loop whose body may raise: the first exception ends it.\<close>

fun attempt_map :: "('a \<Rightarrow> error + 'b) \<Rightarrow> 'a list \<Rightarrow> error + 'b list" where
  "attempt_map f [] = Inr []"
| "attempt_map f (x # xs) =
     (case f x of
        Inl e \<Rightarrow> Inl e
      | Inr y \<Rightarrow> (case attempt_map f xs of Inl e \<Rightarrow> Inl e | Inr ys \<Rightarrow> Inr (y # ys)))"

definition and_then :: "'a traced \<Rightarrow> ('a \<Rightarrow> 'b traced) \<Rightarrow> 'b traced" where
  "and_then m f =
     (case m of
        (tr, Inl e) \<Rightarrow> (tr, Inl e)
      | (tr, Inr x) \<Rightarrow> (case f x of (tr', r) \<Rightarrow> (tr @ tr', r)))"

section \<open>Strings\<close>

text \<open>
  Strings are modelled as lists of 8-bit characters holding ASCII text.  The helpers
  below are the Python built-ins the source uses: \<open>str.replace(c, '')\<close> for a single
  character \<open>c\<close>, \<open>str.lower\<close>, \<open>str.split(' ')\<close>, \<open>str.rfind\<close> and the \<open>in\<close>
  operator on strings.
\<close>

definition remove_char :: "char \<Rightarrow> string \<Rightarrow> string" where
  "remove_char c s = filter (\<lambda>x. x \<noteq> c) s"

definition lower_char :: "char \<Rightarrow> char" where
  "lower_char c =
     (let n = (of_char c :: nat) in if 65 \<le> n \<and> n \<le> 90 then char_of (n + 32) else c)"

definition lower :: "string \<Rightarrow> string" where
  "lower s = map lower_char s"

text \<open>\<open>s.split(' ')\<close>: split at every single space, keeping empty pieces.\<close>

fun split_sp :: "string \<Rightarrow> string list" where
  "split_sp [] = [[]]"
| "split_sp (c # cs) =
     (if c = CHR '' '' then [] # split_sp cs
      else (case split_sp cs of
              [] \<Rightarrow> [[c]]
            | w # ws \<Rightarrow> (c # w) # ws))"

text \<open>\<open>sub in s\<close>: \<open>sub\<close> occurs in \<open>s\<close> as a contiguous block.\<close>

fun contains :: "string \<Rightarrow> string \<Rightarrow> bool" where
  "contains sub [] = (sub = [])"
| "contains sub (c # cs) = (prefix sub (c # cs) \<or> contains sub cs)"

text \<open>
  \<open>s.rfind(c)\<close> for a single character: the highest index at which \<open>c\<close> occurs, or
  \<open>-1\<close>.  \<open>rfind_from c s i\<close> is the same for a string whose first character has
  index \<open>i\<close>.
\<close>

primrec rfind_from :: "char \<Rightarrow> string \<Rightarrow> int \<Rightarrow> int" where
  "rfind_from c [] i = -1"
| "rfind_from c (x # xs) i =
     (let r = rfind_from c xs (i + 1)
      in if 0 \<le> r then r else if x = c then i else -1)"

definition rfind :: "string \<Rightarrow> char \<Rightarrow> int" where
  "rfind s c = rfind_from c s 0"

text \<open>\<open>p[i:j]\<close> for indices that are not negative.\<close>

definition slice :: "string \<Rightarrow> int \<Rightarrow> int \<Rightarrow> string" where
  "slice p i j = drop (nat i) (take (nat j) p)"

subsection \<open>\<open>os.path.splitext\<close>\<close>

text \<open>
  \<open>PreparePayload.execute\<close> takes the extension from \<open>os.path.splitext\<close>, which on
  POSIX is \<open>genericpath._splitext(p, '/', None, '.')\<close>:
  \<^verbatim>\<open>
    sepIndex = p.rfind(sep)
    dotIndex = p.rfind(extsep)
    if dotIndex > sepIndex:
        filenameIndex = sepIndex + 1
        while filenameIndex < dotIndex:
            if p[filenameIndex:filenameIndex+1] != extsep:
                return p[:dotIndex], p[dotIndex:]
            filenameIndex += 1
    return p, p[:0]
  \<close>
\<close>

function skip_dots :: "string \<Rightarrow> int \<Rightarrow> int \<Rightarrow> string \<times> string" where
  "skip_dots p filenameIndex dotIndex =
     (if filenameIndex < dotIndex then
        (if slice p filenameIndex (filenameIndex + 1) \<noteq> ''.''
         then (take (nat dotIndex) p, drop (nat dotIndex) p)
         else skip_dots p (filenameIndex + 1) dotIndex)
      else (p, []))"
  by pat_completeness auto
termination
  by (relation "measure (\<lambda>(p, f, d). nat (d - f))") auto

declare skip_dots.simps [simp del]

definition splitext :: "string \<Rightarrow> string \<times> string" where
  "splitext p =
     (let sepIndex = rfind p CHR ''/'';
          dotIndex = rfind p CHR ''.''
      in if dotIndex > sepIndex then skip_dots p (sepIndex + 1) dotIndex else (p, []))"

section \<open>Task pipeline: \<open>PreparePayload\<close>\<close>

text \<open>
  The three child tasks that \<open>PreparePayload.execute\<close> invokes, and the lookup of the
  wavelength bounds in the payload tree, are collaborators: each is a function that
  returns its output or raises.  Calling a child task leaves a \<open>Called\<close> event in the
  trace.  \<open>HDF5Output\<close> is a context manager: opening the store may raise; once it is
  open, entering the block leaves \<open>Opened\<close>, and leaving it, normally or by an
  exception, leaves \<open>Closed\<close>.
\<close>

record ('p, 'c, 'w, 'o) collaborators =
  loadOptions :: "string \<Rightarrow> error + 'p"
  open_output :: "string \<Rightarrow> error + 'o"
  buildChannels :: "'p \<Rightarrow> bool \<Rightarrow> 'o option \<Rightarrow> error + 'c"
  loadPayload :: "string \<Rightarrow> error + 'p \<times> 'c"
  wl_bounds :: "'p \<Rightarrow> error + 'w \<times> 'w"

definition call :: "child \<Rightarrow> error + 'a \<Rightarrow> 'a traced" where
  "call t r = ([Called t], r)"

definition with_output ::
  "(string \<Rightarrow> error + 'o) \<Rightarrow> string \<Rightarrow> ('o \<Rightarrow> 'a traced) \<Rightarrow> 'a traced" where
  "with_output enter output body =
     (case enter output of
        Inl e \<Rightarrow> ([], Inl e)
      | Inr out \<Rightarrow> (case body out of (tr, r) \<Rightarrow> ([Opened output] @ tr @ [Closed output], r)))"

definition PreparePayload_execute ::
  "('p, 'c, 'w, 'o) collaborators \<Rightarrow> string \<Rightarrow> string option
     \<Rightarrow> ('p \<times> 'c \<times> 'w \<times> 'w) traced" where
  "PreparePayload_execute env payload_file output =
     (let ext = snd (splitext payload_file) in
      and_then
        (if ext = ''.xml'' then
           and_then (call LoadOptions (loadOptions env payload_file)) (\<lambda>payload.
           and_then
             (case output of
                Some output \<Rightarrow>
                  with_output (open_output env) output (\<lambda>out.
                    call BuildChannels (buildChannels env payload True (Some out)))
              | None \<Rightarrow> call BuildChannels (buildChannels env payload False None))
             (\<lambda>channels. ret (payload, channels)))
         else if ext = ''h5'' then
           call LoadPayload (loadPayload env payload_file)
         else
           and_then (emit (Logged ERROR ''Unsupported payload format'')) (\<lambda>_.
           raise (IOError ''Unsupported payload format'')))
        (\<lambda>(payload, channels).
           and_then (lift (wl_bounds env payload)) (\<lambda>(wl_min, wl_max).
           ret (payload, channels, wl_min, wl_max))))"

text \<open>A collaborator set in which every child task succeeds, for concrete runs.\<close>

definition demo_env :: "(string, string list, nat, string) collaborators" where
  "demo_env =
     \<lparr> loadOptions = (\<lambda>f. Inr f),
       open_output = (\<lambda>f. Inr f),
       buildChannels = (\<lambda>p w out. Inr [''Phot'']),
       loadPayload = (\<lambda>f. Inr (f, [''Phot''])),
       wl_bounds = (\<lambda>p. Inr (1, 2)) \<rparr>"

section \<open>Task pipeline: \<open>BuildInstrument\<close>\<close>

text \<open>
  The registry is the module-level dictionary \<open>instruments\<close>.  The instrument classes
  themselves are collaborators: construction, \<open>build()\<close> and \<open>write(output)\<close> may
  each raise, and each leaves an event in the trace when it is reached.
\<close>

definition instruments :: "(string \<times> instr_class) list" where
  "instruments = [(''photometer'', Photometer), (''spectrometer'', Spectrometer)]"

record ('d, 'p, 'i) instrument_lib =
  construct :: "instr_class \<Rightarrow> string \<Rightarrow> 'd \<Rightarrow> 'p \<Rightarrow> error + 'i"
  build :: "'i \<Rightarrow> error + 'i"
  write_to :: "'i \<Rightarrow> string option \<Rightarrow> error + unit"

definition BuildInstrument_execute ::
  "('d, 'p, 'i) instrument_lib \<Rightarrow> string \<Rightarrow> string \<Rightarrow> 'd \<Rightarrow> 'p \<Rightarrow> bool \<Rightarrow> string option
     \<Rightarrow> 'i traced" where
  "BuildInstrument_execute lib type name description payload wr output =
     (case map_of instruments type of
        None \<Rightarrow>
          and_then (emit (Logged ERROR ''invalid instrument class'')) (\<lambda>_. raise ValueError)
      | Some instrumentClass \<Rightarrow>
          and_then (emit (Constructed instrumentClass name)) (\<lambda>_.
          and_then (lift (construct lib instrumentClass name description payload)) (\<lambda>instrument.
          and_then (emit (Built name)) (\<lambda>_.
          and_then (lift (build lib instrument)) (\<lambda>instrument.
          and_then
            (if wr then
               and_then (emit (Written name)) (\<lambda>_. lift (write_to lib instrument output))
             else ret ())
            (\<lambda>_. ret instrument))))))"

text \<open>An instrument library in which every step succeeds, for concrete runs.\<close>

definition demo_lib :: "(string, string, instr_class \<times> string) instrument_lib" where
  "demo_lib =
     \<lparr> construct = (\<lambda>c n d p. Inr (c, n)),
       build = (\<lambda>i. Inr i),
       write_to = (\<lambda>i out. Inr ()) \<rparr>"

section \<open>Targets as attribute bags\<close>

text \<open>
  A Python value is \<open>None\<close>, an integer, a string, a bound method, an instance of
  \<open>Target\<close> given by its \<open>__dict__\<close> (an association list in insertion order), or a
  value of the host libraries (a number, a quantity) that the model does not look into.
\<close>

datatype 'v pyval =
    PyNone
  | PyInt int
  | PyStr string
  | PyOther 'v
  | PyMethod string
  | PyObj "(string \<times> 'v pyval) list"

type_synonym 'v attrs = "(string \<times> 'v pyval) list"

text \<open>
  Class \<open>Logger\<close> is a base class of \<open>Target\<close> that is not part of the sources at hand.
  It enters the model as a parameter: the instance attributes that \<open>set_log_name()\<close>
  binds, and the names that the class itself defines.
\<close>

record 'v logger =
  log_attrs :: "'v attrs"
  log_names :: "string list"

text \<open>\<open>d.update(other)\<close> and \<open>dict(pairs)\<close>: later bindings of a key replace earlier ones.\<close>

definition dict_update :: "('k \<times> 'a) list \<Rightarrow> ('k \<times> 'a) list \<Rightarrow> ('k \<times> 'a) list" where
  "dict_update other d = fold (\<lambda>(k, v). AList.update k v) other d"

definition py_dict :: "('k \<times> 'a) list \<Rightarrow> ('k \<times> 'a) list" where
  "py_dict pairs = dict_update pairs []"

definition set_log_name :: "'v logger \<Rightarrow> 'v attrs \<Rightarrow> 'v attrs" where
  "set_log_name L self = dict_update (log_attrs L) self"

text \<open>
  \<open>Target.__init__\<close>: after \<open>self.set_log_name()\<close> the eight assignments bind local
  variables of the constructor, which are dropped when it returns.
\<close>

definition Target_init :: "'v logger \<Rightarrow> 'v attrs" where
  "Target_init L =
     (let self = set_log_name L [];
          luminosity = (PyNone :: 'v pyval);
          sed = (PyNone :: 'v pyval);
          model = (PyNone :: 'v pyval);
          table = (PyNone :: 'v pyval);
          id = (PyNone :: 'v pyval);
          star = (PyNone :: 'v pyval);
          planet = (PyNone :: 'v pyval);
          name = (PyNone :: 'v pyval)
      in self)"

definition Target_names :: "string list" where
  "Target_names = [''calc_logg'', ''update_target'', ''write'', ''to_dict'']"

definition target_fields :: "string list" where
  "target_fields =
     [''star'', ''planet'', ''name'', ''id'', ''luminosity'', ''sed'', ''model'', ''table'']"

text \<open>
  Reading \<open>obj.n\<close>: the instance dictionary first, then the names defined by the classes
  \<open>Target\<close> and \<open>Logger\<close>, else \<open>AttributeError\<close>.  The special names that every
  object inherits (\<open>__class__\<close>, \<open>__dict__\<close> and the like) are not among the names the
  modelled code reads, and are left out.  Values other than \<open>Target\<close> instances carry
  none of the attributes the modelled code reads.
\<close>

definition getattr :: "'v logger \<Rightarrow> 'v pyval \<Rightarrow> string \<Rightarrow> error + 'v pyval" where
  "getattr L obj n =
     (case obj of
        PyObj d \<Rightarrow>
          (case map_of d n of
             Some v \<Rightarrow> Inr v
           | None \<Rightarrow>
               if n \<in> set (Target_names @ log_names L) then Inr (PyMethod n)
               else Inl (AttributeError n))
      | _ \<Rightarrow> Inl (AttributeError n))"

definition logger_ok :: "'v logger \<Rightarrow> bool" where
  "logger_ok L =
     list_all (\<lambda>n. map_of (log_attrs L) n = None \<and> n \<notin> set (log_names L)) target_fields"

text \<open>
  Values of the host libraries for concrete runs: a number with the name of its unit
  (empty for none), and a logger object.
\<close>

datatype host_value = Number nat string | LoggerObject string

definition demo_logger :: "host_value logger" where
  "demo_logger =
     \<lparr> log_attrs =
         [(''_log_name'', PyStr ''Target''), (''_logger'', PyOther (LoggerObject ''exorad.Target''))],
       log_names = [''set_log_name'', ''info'', ''warning'', ''debug'', ''error'', ''critical''] \<rparr>"

section \<open>\<open>BaseTargetList.create_target_list\<close>\<close>

text \<open>
  The four readers of a target list are given by their outcomes: the value returned or
  the exception raised.  The readers of the subclasses are modelled further down.
\<close>

record 'v source =
  star_keys :: "error + string list"
  star_data :: "error + 'v pyval list list"
  planet_keys :: "error + string list"
  planet_data :: "error + 'v pyval list list"

text \<open>
  The \<open>try\<close> block with its bare \<open>except: pass\<close>: both variables start as \<open>None\<close>; an
  exception in \<open>planet_keys()\<close> leaves both unset, one in \<open>planet_data()\<close> leaves
  \<open>planet_data\<close> unset.
\<close>

definition request_planets ::
  "'v source \<Rightarrow> string list option \<times> 'v pyval list list option" where
  "request_planets src =
     (case planet_keys src of
        Inl _ \<Rightarrow> (None, None)
      | Inr pk \<Rightarrow>
          (case planet_data src of
             Inl _ \<Rightarrow> (Some pk, None)
           | Inr pd \<Rightarrow> (Some pk, Some pd)))"

text \<open>\<open>if planet_data:\<close> holds for a list that is not empty, and not for \<open>None\<close>.\<close>

definition truthy :: "'a list option \<Rightarrow> bool" where
  "truthy d = (case d of None \<Rightarrow> False | Some xs \<Rightarrow> xs \<noteq> [])"

text \<open>
  The body of the first loop.  The sub-objects are held by reference in Python and are
  filled after they have been assigned; the model assigns them filled.
\<close>

definition planet_target ::
  "'v logger \<Rightarrow> string list \<Rightarrow> string list \<Rightarrow> int \<Rightarrow> 'v pyval list \<Rightarrow> 'v pyval list
     \<Rightarrow> error + 'v attrs" where
  "planet_target L star_keys' planet_keys' i star planet =
     (let target = Target_init L;
          planet_dict = py_dict (zip planet_keys' planet);
          target_planet = dict_update planet_dict (Target_init L);
          star_dict = py_dict (zip star_keys' star);
          target_star = dict_update star_dict (Target_init L);
          target = AList.update ''planet'' (PyObj target_planet) target;
          target = AList.update ''star'' (PyObj target_star) target
      in attempt (getattr L (PyObj target_planet) ''name'') (\<lambda>name.
           Inr (AList.update ''id'' (PyInt i) (AList.update ''name'' name target))))"

text \<open>The body of the second loop.\<close>

definition star_target ::
  "'v logger \<Rightarrow> string list \<Rightarrow> int \<Rightarrow> 'v pyval list \<Rightarrow> error + 'v attrs" where
  "star_target L star_keys' i star =
     (let target = Target_init L;
          star_dict = py_dict (zip star_keys' star);
          target_star = dict_update star_dict (Target_init L);
          target = AList.update ''star'' (PyObj target_star) target;
          target = AList.update ''id'' (PyInt i) target
      in attempt (getattr L (PyObj target_star) ''name'') (\<lambda>name.
           Inr (AList.update ''name'' name target)))"

definition create_target_list :: "'v logger \<Rightarrow> 'v source \<Rightarrow> error + 'v attrs list" where
  "create_target_list L src =
     attempt (star_keys src) (\<lambda>star_keys'.
     attempt (star_data src) (\<lambda>star_data'.
       (case request_planets src of (planet_keys', planet_data') \<Rightarrow>
          (case (if truthy planet_data' then planet_data' else None) of
             Some planet_data' \<Rightarrow>
               (case planet_keys' of
                  None \<Rightarrow> Inl TypeError
                | Some planet_keys' \<Rightarrow>
                    attempt_map
                      (\<lambda>(i, star, planet).
                         planet_target L star_keys' planet_keys' (int i) star planet)
                      (enumerate 0 (zip star_data' planet_data')))
           | None \<Rightarrow>
               attempt_map (\<lambda>(i, star). star_target L star_keys' (int i) star)
                 (enumerate 0 star_data')))))"

text \<open>
  Planet data exists when both planet readers returned and \<open>planet_data()\<close> gave at
  least one row.
\<close>

definition has_planets :: "'v source \<Rightarrow> bool" where
  "has_planets src =
     (case planet_keys src of
        Inl _ \<Rightarrow> False
      | Inr _ \<Rightarrow> (case planet_data src of Inl _ \<Rightarrow> False | Inr pd \<Rightarrow> pd \<noteq> []))"

section \<open>\<open>BaseTargetList.searchTarget\<close>\<close>

definition compactString :: "string \<Rightarrow> string" where
  "compactString s = lower (remove_char CHR ''-'' (remove_char CHR '' '' s))"

definition alnum :: "char \<Rightarrow> bool" where
  "alnum c =
     (let n = (of_char c :: nat)
      in (48 \<le> n \<and> n \<le> 57) \<or> (65 \<le> n \<and> n \<le> 90) \<or> (97 \<le> n \<and> n \<le> 122))"

text \<open>
  \<open>re.search(pattern, s)\<close> either raises \<open>re.error\<close> or tells whether some part of \<open>s\<close>
  matches.  Two fragments of the pattern language are fixed here: a pattern of ASCII
  letters and digits only matches exactly where it occurs, and a pattern of letters,
  digits and at least one opening parenthesis has a group that is never closed, which
  \<open>re\<close> rejects.  On every other pattern the regular-expression engine is a parameter.
\<close>

definition re_search ::
  "(string \<Rightarrow> string \<Rightarrow> error + bool) \<Rightarrow> string \<Rightarrow> string \<Rightarrow> error + bool" where
  "re_search engine pattern s =
     (if list_all alnum pattern then Inr (contains pattern s)
      else if list_all (\<lambda>c. alnum c \<or> c = CHR ''('') pattern then Inl ReError
      else engine pattern s)"

text \<open>\<open>str(x)\<close> is the identity on strings; on other values it is a parameter.\<close>

definition py_str :: "('v pyval \<Rightarrow> string) \<Rightarrow> 'v pyval \<Rightarrow> string" where
  "py_str repr x = (case x of PyStr s \<Rightarrow> s | _ \<Rightarrow> repr x)"

definition name_matches ::
  "'v logger \<Rightarrow> (string \<Rightarrow> string \<Rightarrow> error + bool) \<Rightarrow> ('v pyval \<Rightarrow> string) \<Rightarrow> string
     \<Rightarrow> 'v pyval \<Rightarrow> string \<Rightarrow> error + bool" where
  "name_matches L engine repr searchName target part =
     attempt (getattr L target part) (\<lambda>sub.
     attempt (getattr L sub ''name'') (\<lambda>name.
       re_search engine searchName (compactString (py_str repr name))))"

text \<open>The condition of the loop: \<open>or\<close> evaluates its right operand only if the left is false.\<close>

definition target_matches ::
  "'v logger \<Rightarrow> (string \<Rightarrow> string \<Rightarrow> error + bool) \<Rightarrow> ('v pyval \<Rightarrow> string) \<Rightarrow> string
     \<Rightarrow> 'v attrs \<Rightarrow> error + bool" where
  "target_matches L engine repr searchName target =
     attempt (name_matches L engine repr searchName (PyObj target) ''star'') (\<lambda>m.
       if m then Inr True
       else name_matches L engine repr searchName (PyObj target) ''planet'')"

fun search_loop ::
  "'v logger \<Rightarrow> (string \<Rightarrow> string \<Rightarrow> error + bool) \<Rightarrow> ('v pyval \<Rightarrow> string) \<Rightarrow> string
     \<Rightarrow> 'v attrs list \<Rightarrow> error + 'v attrs list" where
  "search_loop L engine repr searchName [] = Inr []"
| "search_loop L engine repr searchName (target # rest) =
     attempt (target_matches L engine repr searchName target) (\<lambda>m.
     attempt (search_loop L engine repr searchName rest) (\<lambda>returnList.
       Inr (if m then target # returnList else returnList)))"

definition searchTarget ::
  "'v logger \<Rightarrow> (string \<Rightarrow> string \<Rightarrow> error + bool) \<Rightarrow> ('v pyval \<Rightarrow> string)
     \<Rightarrow> 'v attrs list \<Rightarrow> string \<Rightarrow> error + 'v attrs list" where
  "searchTarget L engine repr targets name =
     (let searchName = compactString name
      in search_loop L engine repr searchName targets)"

section \<open>\<open>Target.update_target\<close>\<close>

text \<open>
  The argument of \<open>update_target\<close> is any Python object.  The model keeps what the method
  looks at: its class, as far as \<open>isinstance\<close> tells it apart, and what reading an
  attribute of it gives.
\<close>

datatype pytype = Star | CustomSed | OtherType string

record 'v pyobject =
  type_of :: pytype
  attr :: "string \<Rightarrow> error + 'v pyval"

definition class_str :: "string \<Rightarrow> string" where
  "class_str n = ''<class '' @ [CHR 0x27] @ n @ [CHR 0x27] @ ''>''"

definition type_str :: "pytype \<Rightarrow> string" where
  "type_str t =
     (case t of
        Star \<Rightarrow> class_str ''exorad.models.source.Star''
      | CustomSed \<Rightarrow> class_str ''exorad.models.source.CustomSed''
      | OtherType n \<Rightarrow> class_str n)"

text \<open>
  \<open>format(t, spec)\<close> for a class object \<open>t\<close>, which is what a replacement field
  \<open>{:spec}\<close> of \<open>str.format\<close> calls: classes inherit \<open>object.__format__\<close>, which
  returns \<open>str(t)\<close> for the empty format specification and raises \<open>TypeError\<close> for any
  other.
\<close>

definition format_type :: "pytype \<Rightarrow> string \<Rightarrow> error + string" where
  "format_type t spec = (if spec = [] then Inr (type_str t) else Inl TypeError)"

text \<open>\<open>self.star.n = v\<close>: \<open>self.star\<close> is read, then the attribute is bound on it.\<close>

definition set_star_attr ::
  "'v logger \<Rightarrow> 'v attrs \<Rightarrow> string \<Rightarrow> 'v pyval \<Rightarrow> error + 'v attrs" where
  "set_star_attr L self n v =
     attempt (getattr L (PyObj self) ''star'') (\<lambda>star.
       case star of
         PyObj d \<Rightarrow> Inr (AList.update ''star'' (PyObj (AList.update n v d)) self)
       | _ \<Rightarrow> Inl (AttributeError n))"

text \<open>
  The method returns the state of the target after the call, the log records written,
  and the exception if one was raised.  In each assignment the right-hand side is
  evaluated first.
\<close>

fun copy_attrs ::
  "'v logger \<Rightarrow> 'v pyobject \<Rightarrow> string list \<Rightarrow> 'v attrs \<Rightarrow> 'v attrs \<times> (error + unit)" where
  "copy_attrs L obj [] self = (self, Inr ())"
| "copy_attrs L obj (n # ns) self =
     (case attr obj n of
        Inl e \<Rightarrow> (self, Inl e)
      | Inr v \<Rightarrow>
          (case set_star_attr L self n v of
             Inl e \<Rightarrow> (self, Inl e)
           | Inr self' \<Rightarrow> copy_attrs L obj ns self'))"

definition update_target ::
  "'v logger \<Rightarrow> 'v attrs \<Rightarrow> 'v pyobject \<Rightarrow> 'v attrs \<times> unit traced" where
  "update_target L self obj =
     (if type_of obj = Star \<or> type_of obj = CustomSed then
        (case copy_attrs L obj [''luminosity'', ''sed'', ''model''] self of
           (self', Inl e) \<Rightarrow> (self', raise e)
         | (self', Inr _) \<Rightarrow> (self', emit (Logged DEBUG ''target updated'')))
      else
        (self,
         and_then (lift (format_type (type_of obj) ''s'')) (\<lambda>t.
           emit (Logged WARNING (''Object type '' @ t @ '' not implemented'')))))"

section \<open>Unit annotations\<close>

definition stripUnitString :: "string \<Rightarrow> string" where
  "stripUnitString s = remove_char CHR '']'' (remove_char CHR ''['' s)"

text \<open>
  The unit library is a parameter: \<open>Unit s\<close> is the unit that \<open>u.Unit(s)\<close> returns, or
  \<open>None\<close> where it raises \<open>ValueError\<close>; \<open>mul_unit v q\<close> is the product \<open>v * (1 * q)\<close> of a
  cell and a unit.  Every call of \<open>u.Unit\<close> leaves a \<open>UnitCall\<close> event.
\<close>

record ('v, 'u) unit_lib =
  Unit :: "string \<Rightarrow> 'u option"
  mul_unit :: "'v pyval \<Rightarrow> 'u \<Rightarrow> 'v pyval"

subsection \<open>Spreadsheet: \<open>XLXSTargetList.__parseData__\<close>\<close>

text \<open>\<open>dim\<close> is a unit, or the plain number \<open>1\<close>.\<close>

datatype 'u dim = One | Dim 'u

definition parse_dim :: "('v, 'u) unit_lib \<Rightarrow> string \<Rightarrow> 'u dim traced" where
  "parse_dim lib str_unit =
     (if length str_unit > 0 then
        and_then (emit (UnitCall (stripUnitString str_unit))) (\<lambda>_.
          case Unit lib (stripUnitString str_unit) of
            Some q \<Rightarrow> ret (Dim q)
          | None \<Rightarrow>
              and_then (emit (Logged WARNING ''Unrecognised physical units'')) (\<lambda>_. ret One))
      else ret One)"

text \<open>
  The loop over the columns of a block.  Reading the sheet is left to the caller: each
  column comes with its key, its cell of the units row and its data cells.  The entry
  stored under the key is the product of the data cells and \<open>dim\<close>, kept as a pair.
\<close>

fun parseData ::
  "('v, 'u) unit_lib \<Rightarrow> (string \<times> string \<times> 'v pyval list) list
     \<Rightarrow> (string \<times> 'v pyval list \<times> 'u dim) list
     \<Rightarrow> (string \<times> 'v pyval list \<times> 'u dim) list traced" where
  "parseData lib [] obj = ret obj"
| "parseData lib ((key, str_unit, col_values) # rest) obj =
     and_then (parse_dim lib str_unit) (\<lambda>dim.
       parseData lib rest (AList.update key (col_values, dim) obj))"

subsection \<open>Delimited text: \<open>CSVTargetList\<close>\<close>

text \<open>
  \<open>tmpTab\<close> is the table read from the file: its columns in order, each a header and
  the cells of the column.  The table library keeps headers distinct and columns of
  equal length.  \<open>tmpTab.keys()\<close> lists the headers; \<open>tmpTab[names]\<close> is the table of
  the named columns; \<open>len\<close> counts the rows, and a table without columns has none;
  \<open>list(t[i])\<close> is row \<open>i\<close>, read only for \<open>i\<close> below the number of rows.
\<close>

type_synonym 'v table = "(string \<times> 'v pyval list) list"


definition keys :: "'v table \<Rightarrow> string list" where
  "keys t = map fst t"

fun select :: "'v table \<Rightarrow> string list \<Rightarrow> error + 'v table" where
  "select t [] = Inr []"
| "select t (k # ks) =
     (case map_of t k of
        None \<Rightarrow> Inl KeyError
      | Some col \<Rightarrow> (case select t ks of Inl e \<Rightarrow> Inl e | Inr sub \<Rightarrow> Inr ((k, col) # sub)))"

definition nrows :: "'v table \<Rightarrow> nat" where
  "nrows t = (case t of [] \<Rightarrow> 0 | (k, col) # _ \<Rightarrow> length col)"

definition row :: "'v table \<Rightarrow> nat \<Rightarrow> 'v pyval list" where
  "row t i = map (\<lambda>(k, col). col ! i) t"

text \<open>\<open>[k for k in self.tmpTab.keys() if tok in k]\<close>\<close>

definition columns_of :: "string \<Rightarrow> 'v table \<Rightarrow> string list" where
  "columns_of tok t = filter (contains tok) (keys t)"

text \<open>\<open>k.split(' ')[1]\<close>\<close>

definition field_name :: "string \<Rightarrow> error + string" where
  "field_name k = (case split_sp k of _ # f # _ \<Rightarrow> Inr f | _ \<Rightarrow> Inl IndexError)"

text \<open>\<open>star_keys\<close> and \<open>planet_keys\<close> differ in the token only.\<close>

definition CSV_keys :: "string \<Rightarrow> 'v table \<Rightarrow> error + string list" where
  "CSV_keys tok t = (let s_col = columns_of tok t in attempt_map field_name s_col)"


text \<open>The first loop of \<open>star_data\<close> and \<open>planet_data\<close>: one entry of \<open>units\<close> per header.\<close>

fun header_units :: "('v, 'u) unit_lib \<Rightarrow> string list \<Rightarrow> 'u option list traced" where
  "header_units lib [] = ret []"
| "header_units lib (k # ks) =
     and_then
       (if length (split_sp k) = 3 then
          (let un = split_sp k ! 2 in
           and_then (emit (UnitCall (stripUnitString un))) (\<lambda>_.
             case Unit lib (stripUnitString un) of
               None \<Rightarrow> raise ValueError
             | Some q \<Rightarrow> ret (Some q)))
        else ret None)
       (\<lambda>unit. and_then (header_units lib ks) (\<lambda>units. ret (unit # units)))"

text \<open>
  The inner loop over one row.  The last step of the source turns NumPy strings into
  Python strings; the model has one kind of string, so that step changes nothing.
\<close>

definition apply_units :: "('v, 'u) unit_lib \<Rightarrow> 'u option list \<Rightarrow> 'v pyval list \<Rightarrow> 'v pyval list" where
  "apply_units lib units val =
     map (\<lambda>(v, unit). case unit of None \<Rightarrow> v | Some q \<Rightarrow> mul_unit lib v q) (zip val units)"

definition CSV_data :: "('v, 'u) unit_lib \<Rightarrow> string \<Rightarrow> 'v table \<Rightarrow> 'v pyval list list traced" where
  "CSV_data lib tok t =
     (let star_k = columns_of tok t in
      and_then (header_units lib star_k) (\<lambda>units.
      and_then (lift (select t star_k)) (\<lambda>sub.
        ret (map (\<lambda>i. apply_units lib units (row sub i)) [0..<nrows sub]))))"

definition CSV_source :: "('v, 'u) unit_lib \<Rightarrow> 'v table \<Rightarrow> 'v source" where
  "CSV_source lib t =
     \<lparr> star_keys = CSV_keys ''star'' t,
       star_data = snd (CSV_data lib ''star'' t),
       planet_keys = CSV_keys ''planet'' t,
       planet_data = snd (CSV_data lib ''planet'' t) \<rparr>"

text \<open>
  A unit library that knows the kelvin, the Jupiter radius and the dimensionless unit,
  and two catalogues, for concrete runs.
\<close>

definition demo_units :: "(host_value, string) unit_lib" where
  "demo_units =
     \<lparr> Unit = (\<lambda>s. if s = ''K'' \<or> s = ''Rjup'' \<or> s = [] then Some s else None),
       mul_unit = (\<lambda>v q. case v of PyOther (Number x _) \<Rightarrow> PyOther (Number x q) | _ \<Rightarrow> v) \<rparr>"


definition demo_star_table :: "host_value table" where
  "demo_star_table =
     [(''star name'', [PyStr ''HD 209458'', PyStr ''Sun'']),
      (''star Teff [K]'', [PyOther (Number 6065 []), PyOther (Number 5772 [])])]"

text \<open>The targets assembled from \<open>demo_table\<close>.\<close>

definition demo_targets :: "host_value attrs list" where
  "demo_targets =
     [[(''_log_name'', PyStr ''Target''),
       (''_logger'', PyOther (LoggerObject ''exorad.Target'')),
       (''planet'',
        PyObj
         [(''_log_name'', PyStr ''Target''),
          (''_logger'', PyOther (LoggerObject ''exorad.Target'')),
          (''name'', PyStr ''HD 209458 b''),
          (''Radius'', PyOther (Number 138 ''Rjup''))]),
       (''star'',
        PyObj
         [(''_log_name'', PyStr ''Target''),
          (''_logger'', PyOther (LoggerObject ''exorad.Target'')),
          (''name'', PyStr ''HD 209458''),
          (''Teff'', PyOther (Number 6065 ''K''))]),
       (''name'', PyStr ''HD 209458 b''), (''id'', PyInt 0)],
      [(''_log_name'', PyStr ''Target''),
       (''_logger'', PyOther (LoggerObject ''exorad.Target'')),
       (''planet'',
        PyObj
         [(''_log_name'', PyStr ''Target''),
          (''_logger'', PyOther (LoggerObject ''exorad.Target'')),
          (''name'', PyStr ''Earth''),
          (''Radius'', PyOther (Number 9 ''Rjup''))]),
       (''star'',
        PyObj
         [(''_log_name'', PyStr ''Target''),
          (''_logger'', PyOther (LoggerObject ''exorad.Target'')),
          (''name'', PyStr ''Sun''),
          (''Teff'', PyOther (Number 5772 ''K''))]),
       (''name'', PyStr ''Earth''), (''id'', PyInt 1)]]"

text \<open>
  For concrete searches: an engine that rejects whatever lies outside the two fragments
  of \<open>re_search\<close>, and a \<open>str\<close> that prints every value that is not a string
  alike.
\<close>

definition demo_engine :: "string \<Rightarrow> string \<Rightarrow> error + bool" where
  "demo_engine pattern s = Inl (Raised ''pattern outside the modelled fragments'')"

definition demo_repr :: "host_value pyval \<Rightarrow> string" where
  "demo_repr x = ''<object>''"

section \<open>Properties of the string helpers\<close>

lemma rfind_from_range:
  "rfind_from c xs i = -1 \<or>
   (i \<le> rfind_from c xs i \<and> rfind_from c xs i < i + int (length xs) \<and>
    xs ! nat (rfind_from c xs i - i) = c)"
proof (induction xs arbitrary: i)
  case Nil
  show ?case by simp
next
  case (Cons x xs)
  let ?r = "rfind_from c xs (i + 1)"
  from Cons.IH [of "i + 1"] consider "?r = -1"
    | "i + 1 \<le> ?r" "?r < i + 1 + int (length xs)" "xs ! nat (?r - (i + 1)) = c"
    by blast
  then show ?case
  proof cases
    case 1
    then show ?thesis by (simp add: Let_def)
  next
    case 2
    then have "0 \<le> ?r - (i + 1)" by simp
    then have "nat (?r - i) = Suc (nat (?r - (i + 1)))" by simp
    with 2 show ?thesis by (auto simp: Let_def)
  qed
qed

lemma rfind_char:
  assumes "0 \<le> rfind p c"
  shows "nat (rfind p c) < length p \<and> p ! nat (rfind p c) = c"
  using rfind_from_range [of c p 0] assms by (auto simp: rfind_def)

lemma skip_dots_cases:
  "skip_dots p f d = (p, []) \<or> skip_dots p f d = (take (nat d) p, drop (nat d) p)"
proof (induction p f d rule: skip_dots.induct)
  case (1 p f d)
  then show ?case by (subst (1 2) skip_dots.simps) auto
qed

text \<open>The extension that \<open>splitext\<close> returns is empty or begins with the dot.\<close>

lemma splitext_ext:
  "snd (splitext p) = [] \<or> (\<exists>rest. snd (splitext p) = CHR ''.'' # rest)"
proof (cases "rfind p CHR ''.'' > rfind p CHR ''/''")
  case False
  then show ?thesis by (simp add: splitext_def Let_def)
next
  case True
  let ?d = "rfind p CHR ''.''"
  have "- 1 \<le> rfind p CHR ''/''"
    using rfind_from_range [of "CHR ''/''" p 0] by (auto simp: rfind_def)
  with True have "0 \<le> ?d" by simp
  then have d: "nat ?d < length p" "p ! nat ?d = CHR ''.''"
    using rfind_char by blast+
  then have "drop (nat ?d) p = CHR ''.'' # drop (Suc (nat ?d)) p"
    by (metis Cons_nth_drop_Suc)
  with skip_dots_cases [of p "rfind p CHR ''/'' + 1" ?d] True
  show ?thesis by (auto simp: splitext_def Let_def)
qed

lemma ext_not_h5: "snd (splitext p) \<noteq> ''h5''"
  using splitext_ext [of p] by auto

lemma splitext_payload_h5: "splitext ''payload.h5'' = (''payload'', ''.h5'')"
  by code_simp

lemma splitext_payload_json: "splitext ''payload.json'' = (''payload'', ''.json'')"
  by code_simp

section \<open>Properties of \<open>PreparePayload\<close>\<close>

lemma unsupported_format:
  assumes "snd (splitext payload_file) \<noteq> ''.xml''" and "snd (splitext payload_file) \<noteq> ''h5''"
  shows "PreparePayload_execute env payload_file output =
      ([Logged ERROR ''Unsupported payload format''],
       Inl (IOError ''Unsupported payload format''))"
  using assms
  by (simp add: PreparePayload_execute_def Let_def and_then_def emit_def raise_def)

text \<open>
  No path reaches \<open>LoadPayload\<close>: the branch compares the extension with \<open>''h5''\<close>, and
  an extension is never that string.
\<close>

lemma LoadPayload_unreachable:
  "Called LoadPayload \<notin> set (fst (PreparePayload_execute env p out))"
  by (auto simp: PreparePayload_execute_def Let_def and_then_def emit_def raise_def ext_not_h5
      call_def with_output_def ret_def lift_def
      split: sum.splits option.splits prod.splits)

text \<open>
  C1.  A payload file whose name ends in \<open>.h5\<close> is to be dispatched to \<open>LoadPayload\<close>.
  The code does not do so: on \<open>payload.h5\<close>, with any collaborators and any output,
  \<open>execute\<close> logs the error and raises the unsupported-format \<open>IOError\<close>, and no child
  task is called.
\<close>

theorem PreparePayload_h5_rejected:
  "PreparePayload_execute env ''payload.h5'' output =
     ([Logged ERROR ''Unsupported payload format''],
      Inl (IOError ''Unsupported payload format''))"
  by (rule unsupported_format) (simp_all add: splitext_payload_h5)

text \<open>
  C9.  If the extension of the payload file is neither \<open>.xml\<close> nor \<open>h5\<close>, then
  \<open>execute\<close> writes one log record, at error level, and raises the unsupported-format
  \<open>IOError\<close>; the trace holds no call of a child task.
\<close>

theorem PreparePayload_unsupported:
  assumes "snd (splitext payload_file) \<noteq> ''.xml''" and "snd (splitext payload_file) \<noteq> ''h5''"
  shows "PreparePayload_execute env payload_file output =
           ([Logged ERROR ''Unsupported payload format''],
            Inl (IOError ''Unsupported payload format''))
         \<and> (\<forall>t. Called t \<notin> set (fst (PreparePayload_execute env payload_file output)))"
  using assms
  by (simp add: PreparePayload_execute_def Let_def and_then_def emit_def raise_def)

theorem PreparePayload_unsupported_witness:
  "snd (splitext ''payload.json'') \<noteq> ''.xml'' \<and> snd (splitext ''payload.json'') \<noteq> ''h5''
   \<and> PreparePayload_execute demo_env ''payload.json'' (Some ''out.h5'') =
        ([Logged ERROR ''Unsupported payload format''],
         Inl (IOError ''Unsupported payload format''))
   \<and> (\<forall>t. Called t \<notin> set (fst (PreparePayload_execute demo_env ''payload.json'' (Some ''out.h5''))))"
proof -
  have a: "snd (splitext ''payload.json'') \<noteq> ''.xml''"
    and b: "snd (splitext ''payload.json'') \<noteq> ''h5''"
    by (simp_all add: splitext_payload_json)
  from PreparePayload_unsupported [OF a b, of demo_env "Some ''out.h5''"] a b
  show ?thesis by blast
qed

section \<open>Properties of \<open>BuildInstrument\<close>\<close>

lemma registry_lookup:
  "map_of instruments type =
     (if type = ''photometer'' then Some Photometer
      else if type = ''spectrometer'' then Some Spectrometer else None)"
  by (simp add: instruments_def)

lemma lower_Photometer: "lower ''Photometer'' = ''photometer''"
  by code_simp

text \<open>
  C6, as stated, asks for a lookup that ignores case.  The tag \<open>Photometer\<close> is in the
  registry once lower-cased, yet \<open>execute\<close> rejects it: the error is logged,
  \<open>ValueError\<close> is raised and nothing is constructed.
\<close>

theorem BuildInstrument_case_counterexample:
  "map_of instruments (lower ''Photometer'') = Some Photometer
   \<and> BuildInstrument_execute demo_lib ''Photometer'' ''Phot'' ''description'' ''payload'' False None
       = ([Logged ERROR ''invalid instrument class''], Inl ValueError)"
  by (simp add: lower_Photometer registry_lookup BuildInstrument_execute_def
      and_then_def emit_def raise_def)

text \<open>
  C6, amended.  \<open>execute\<close> looks the type tag up as it is given.  For the tag
  \<open>photometer\<close> the first thing it does is to call the constructor of \<open>Photometer\<close>,
  for \<open>spectrometer\<close> that of \<open>Spectrometer\<close>.  For every other tag it logs the error
  and raises \<open>ValueError\<close>, and the trace holds no constructor call.
\<close>

theorem BuildInstrument_registry:
  "(type = ''photometer'' \<longrightarrow>
      (\<exists>tr r. BuildInstrument_execute lib type name description payload wr output
                = (Constructed Photometer name # tr, r)))
   \<and> (type = ''spectrometer'' \<longrightarrow>
      (\<exists>tr r. BuildInstrument_execute lib type name description payload wr output
                = (Constructed Spectrometer name # tr, r)))
   \<and> (type \<noteq> ''photometer'' \<and> type \<noteq> ''spectrometer'' \<longrightarrow>
        BuildInstrument_execute lib type name description payload wr output
          = ([Logged ERROR ''invalid instrument class''], Inl ValueError)
        \<and> (\<forall>c n. Constructed c n \<notin>
              set (fst (BuildInstrument_execute lib type name description payload wr output))))"
  by (auto simp: BuildInstrument_execute_def registry_lookup and_then_def emit_def raise_def
      split: prod.splits sum.splits)

theorem BuildInstrument_registry_witness:
  "(\<exists>tr r. BuildInstrument_execute demo_lib ''photometer'' ''Phot'' ''d'' ''p'' False None
             = (Constructed Photometer ''Phot'' # tr, r))
   \<and> (\<exists>tr r. BuildInstrument_execute demo_lib ''spectrometer'' ''Spec'' ''d'' ''p'' False None
             = (Constructed Spectrometer ''Spec'' # tr, r))
   \<and> BuildInstrument_execute demo_lib ''bolometer'' ''Bolo'' ''d'' ''p'' False None
       = ([Logged ERROR ''invalid instrument class''], Inl ValueError)"
  using BuildInstrument_registry [of "''photometer''" demo_lib "''Phot''" "''d''" "''p''" False None]
    BuildInstrument_registry [of "''spectrometer''" demo_lib "''Spec''" "''d''" "''p''" False None]
    BuildInstrument_registry [of "''bolometer''" demo_lib "''Bolo''" "''d''" "''p''" False None]
  by simp

section \<open>Properties of the attribute bags\<close>

lemma map_of_dict_update: "map_of (dict_update other d) = map_of d ++ map_of (rev other)"
  unfolding dict_update_def
proof (induction other arbitrary: d)
  case Nil
  show ?case by simp
next
  case (Cons x xs)
  obtain k v where x: "x = (k, v)" by (cases x)
  have "map_of (fold (\<lambda>(k, v). AList.update k v) (x # xs) d)
          = map_of (AList.update k v d) ++ map_of (rev xs)"
    using Cons.IH [of "AList.update k v d"] by (simp add: x)
  also have "\<dots> = map_of d ++ map_of (rev (x # xs))"
    by (simp add: x update_conv' map_add_upd_left)
  finally show ?case .
qed

lemma map_of_rev_None: "map_of (rev xs) k = None \<longleftrightarrow> map_of xs k = None"
  by (simp add: map_of_eq_None_iff)

lemma Target_init_attrs: "map_of (Target_init L) n = None \<longleftrightarrow> map_of (log_attrs L) n = None"
  by (simp add: Target_init_def set_log_name_def map_of_dict_update map_add_None map_of_rev_None)

lemma logger_ok_field:
  "logger_ok L \<Longrightarrow> n \<in> set target_fields \<Longrightarrow>
     map_of (log_attrs L) n = None \<and> n \<notin> set (log_names L)"
  by (simp add: logger_ok_def list_all_iff)

lemma logger_ok_demo: "logger_ok demo_logger"
  by (simp add: logger_ok_def demo_logger_def target_fields_def)

lemma field_not_method: "n \<in> set target_fields \<Longrightarrow> n \<notin> set Target_names"
  by (auto simp: target_fields_def Target_names_def)

text \<open>
  C10.  Provided class \<open>Logger\<close> neither binds nor defines one of the eight names, a
  freshly constructed \<open>Target\<close> holds exactly what \<open>set_log_name()\<close> bound, none of
  \<open>star\<close>, \<open>planet\<close>, \<open>name\<close>, \<open>id\<close>, \<open>luminosity\<close>, \<open>sed\<close>, \<open>model\<close>, \<open>table\<close> is
  in its dictionary, and reading any of them raises \<open>AttributeError\<close>.
\<close>

theorem Target_init_binds_no_field:
  assumes "logger_ok L"
  shows "Target_init L = set_log_name L []
         \<and> (\<forall>n \<in> set target_fields.
               map_of (Target_init L) n = None
               \<and> getattr L (PyObj (Target_init L)) n = Inl (AttributeError n))"
proof -
  have "map_of (Target_init L) n = None \<and> getattr L (PyObj (Target_init L)) n = Inl (AttributeError n)"
    if n: "n \<in> set target_fields" for n
  proof -
    from logger_ok_field [OF assms n] have "map_of (Target_init L) n = None" "n \<notin> set (log_names L)"
      by (simp_all add: Target_init_attrs)
    with field_not_method [OF n] show ?thesis by (simp add: getattr_def)
  qed
  moreover have "Target_init L = set_log_name L []" by (simp add: Target_init_def)
  ultimately show ?thesis by blast
qed

theorem Target_init_binds_no_field_witness:
  "logger_ok demo_logger
   \<and> getattr demo_logger (PyObj (Target_init demo_logger)) ''planet'' = Inl (AttributeError ''planet'')
   \<and> getattr demo_logger (PyObj (Target_init demo_logger)) ''name'' = Inl (AttributeError ''name'')
   \<and> getattr demo_logger (PyObj (Target_init demo_logger)) ''table'' = Inl (AttributeError ''table'')"
  using Target_init_binds_no_field [OF logger_ok_demo, THEN conjunct2] logger_ok_demo
  by (simp add: target_fields_def)

section \<open>Properties of \<open>update_target\<close>\<close>

text \<open>
  C2.  An object that is neither a \<open>Star\<close> nor a \<open>CustomSed\<close> is to be answered with a
  warning and no exception.  The code raises instead: the message is built with
  \<open>'{:s}'.format(type(obj))\<close>, and a class does not accept the format specification
  \<open>s\<close>.  For every target, every class name and every such object the call raises
  \<open>TypeError\<close> before anything is logged; the target is left as it was.
\<close>

theorem update_target_unsupported_raises:
  "update_target L self \<lparr> type_of = OtherType n, attr = a \<rparr> = (self, [], Inl TypeError)"
  by (simp add: update_target_def and_then_def lift_def format_type_def)

section \<open>Properties of the unit annotations\<close>

text \<open>The spreadsheet reader never raises on a unit cell, and warns exactly when the
  cell is not empty and does not parse.\<close>

lemma parse_dim_total:
  "parse_dim lib str_unit =
     (if str_unit = [] then ([], Inr One)
      else case Unit lib (stripUnitString str_unit) of
             Some q \<Rightarrow> ([UnitCall (stripUnitString str_unit)], Inr (Dim q))
           | None \<Rightarrow>
               ([UnitCall (stripUnitString str_unit),
                 Logged WARNING ''Unrecognised physical units''], Inr One))"
  by (simp add: parse_dim_def and_then_def emit_def ret_def split: option.splits)

lemma parse_dim_returns: "\<exists>tr d. parse_dim lib str_unit = (tr, Inr d)"
  by (simp add: parse_dim_total split: option.splits)

lemma parseData_returns: "\<exists>tr obj'. parseData lib cols obj = (tr, Inr obj')"
proof (induction cols arbitrary: obj)
  case Nil
  show ?case by (simp add: ret_def)
next
  case (Cons c cols)
  obtain key str_unit vals where c: "c = (key, str_unit, vals)" by (cases c)
  obtain tr d where d: "parse_dim lib str_unit = (tr, Inr d)"
    using parse_dim_returns by blast
  obtain tr' obj' where "parseData lib cols (AList.update key (vals, d) obj) = (tr', Inr obj')"
    using Cons.IH by blast
  with d show ?case by (simp add: c and_then_def)
qed

lemma split_sp_star_Teff: "split_sp ''star Teff [Kelvinn]'' = [''star'', ''Teff'', ''[Kelvinn]'']"
  by code_simp

lemma split_sp_star_name: "split_sp ''star name'' = [''star'', ''name'']"
  by code_simp

lemma contains_star_Teff: "contains ''star'' ''star Teff [Kelvinn]''"
  by code_simp

lemma contains_star_name: "contains ''star'' ''star name''"
  by code_simp

lemma strip_Kelvinn: "stripUnitString ''[Kelvinn]'' = ''Kelvinn''"
  by code_simp

text \<open>
  C3.  A unit annotation that does not parse is to degrade to dimensionless with a
  warning, in the delimited-text reader as in the spreadsheet reader.  The
  delimited-text reader has no handler around \<open>u.Unit\<close>: for the header
  \<open>star Teff [Kelvinn]\<close>, and any unit library that rejects \<open>Kelvinn\<close>, \<open>star_data\<close>
  raises \<open>ValueError\<close> after the call of \<open>u.Unit\<close>, without a log record, and
  \<open>create_target_list\<close> raises with it.
\<close>

theorem CSV_unit_raises:
  assumes "Unit lib ''Kelvinn'' = None"
  shows "CSV_data lib ''star''
           [(''star name'', [PyStr ''Sun'']), (''star Teff [Kelvinn]'', [x])]
           = ([UnitCall ''Kelvinn''], Inl ValueError)
         \<and> create_target_list L
             (CSV_source lib [(''star name'', [PyStr ''Sun'']), (''star Teff [Kelvinn]'', [x])])
           = Inl ValueError"
proof -
  let ?t = "[(''star name'', [PyStr ''Sun'']), (''star Teff [Kelvinn]'', [x])]"
  have cols: "columns_of ''star'' ?t = [''star name'', ''star Teff [Kelvinn]'']"
    by (simp add: columns_of_def keys_def contains_star_Teff contains_star_name)
  have units: "header_units lib [''star name'', ''star Teff [Kelvinn]'']
                 = ([UnitCall ''Kelvinn''], Inl ValueError)"
    using assms
    by (simp add: split_sp_star_Teff split_sp_star_name strip_Kelvinn
        and_then_def ret_def emit_def raise_def)
  have data: "CSV_data lib ''star'' ?t = ([UnitCall ''Kelvinn''], Inl ValueError)"
    by (simp only: CSV_data_def cols Let_def units) (simp add: and_then_def)
  have keys: "CSV_keys ''star'' ?t = Inr [''name'', ''Teff'']"
    by (simp add: CSV_keys_def cols field_name_def split_sp_star_Teff split_sp_star_name)
  have "create_target_list L (CSV_source lib ?t) = Inl ValueError"
    by (simp add: create_target_list_def CSV_source_def keys data attempt_def)
  with data show ?thesis by blast
qed

theorem CSV_unit_raises_witness:
  "Unit demo_units ''Kelvinn'' = None
   \<and> CSV_data demo_units ''star''
        [(''star name'', [PyStr ''Sun'']), (''star Teff [Kelvinn]'', [PyOther (Number 5700 [])])]
        = ([UnitCall ''Kelvinn''], Inl ValueError)
   \<and> create_target_list demo_logger
        (CSV_source demo_units
           [(''star name'', [PyStr ''Sun'']), (''star Teff [Kelvinn]'', [PyOther (Number 5700 [])])])
        = Inl ValueError"
proof -
  have u: "Unit demo_units ''Kelvinn'' = None" by (simp add: demo_units_def)
  from CSV_unit_raises [OF u, of "PyOther (Number 5700 [])" demo_logger] u show ?thesis by blast
qed

section \<open>Properties of \<open>create_target_list\<close>\<close>

lemma attempt_map_nth:
  "attempt_map f xs = Inr ys \<Longrightarrow>
     length ys = length xs \<and> (\<forall>i < length xs. f (xs ! i) = Inr (ys ! i))"
proof (induction xs arbitrary: ys)
  case Nil
  then show ?case by simp
next
  case (Cons x xs)
  from Cons.prems obtain y ys' where y: "f x = Inr y" and ys': "attempt_map f xs = Inr ys'"
    and ys: "ys = y # ys'"
    by (auto split: sum.splits)
  from Cons.IH [OF ys'] y ys show ?case
    by (auto simp: nth_Cons split: nat.splits)
qed

lemma attempt_map_returns:
  "(\<forall>x \<in> set xs. \<exists>y. f x = Inr y) \<Longrightarrow> \<exists>ys. attempt_map f xs = Inr ys"
  by (induction xs) auto

lemma getattr_bound: "map_of d n = Some v \<Longrightarrow> getattr L (PyObj d) n = Inr v"
  by (simp add: getattr_def)

lemma getattr_unbound:
  "map_of d n = None \<Longrightarrow> n \<notin> set Target_names \<Longrightarrow> n \<notin> set (log_names L) \<Longrightarrow>
     getattr L (PyObj d) n = Inl (AttributeError n)"
  by (simp add: getattr_def)

lemma dom_dict_update: "dom (map_of (dict_update other d)) = fst ` set d \<union> fst ` set other"
  by (auto simp: map_of_dict_update dom_map_of_conv_image_fst)

lemma keys_dict_update: "fst ` set (dict_update other d) = fst ` set d \<union> fst ` set other"
  using dom_dict_update [of other d] by (simp add: dom_map_of_conv_image_fst)

lemma sub_record_binds:
  assumes "n \<in> fst ` set pairs"
  shows "\<exists>v. map_of (dict_update (py_dict pairs) d) n = Some v"
proof -
  have "n \<in> dom (map_of (dict_update (py_dict pairs) d))"
    using assms by (simp add: dom_dict_update py_dict_def keys_dict_update)
  then show ?thesis by blast
qed

text \<open>What the body of the star-only loop returns.\<close>

lemma star_target_Inr:
  assumes "star_target L sk i star = Inr t"
  shows "\<exists>nm. getattr L (PyObj (dict_update (py_dict (zip sk star)) (Target_init L))) ''name'' = Inr nm
           \<and> t = AList.update ''name'' nm (AList.update ''id'' (PyInt i)
                   (AList.update ''star''
                      (PyObj (dict_update (py_dict (zip sk star)) (Target_init L)))
                      (Target_init L)))"
  using assms by (auto simp: star_target_def Let_def attempt_def split: sum.splits)


lemma star_target_returns:
  assumes "''name'' \<in> fst ` set (zip sk star)"
  shows "\<exists>t. star_target L sk i star = Inr t"
proof -
  obtain v where "map_of (dict_update (py_dict (zip sk star)) (Target_init L)) ''name'' = Some v"
    using sub_record_binds [OF assms] by blast
  then show ?thesis
    by (simp add: star_target_def Let_def attempt_def getattr_bound)
qed

lemma planet_target_returns:
  assumes "''name'' \<in> fst ` set (zip pk planet)"
  shows "\<exists>t. planet_target L sk pk i star planet = Inr t"
proof -
  obtain v where "map_of (dict_update (py_dict (zip pk planet)) (Target_init L)) ''name'' = Some v"
    using sub_record_binds [OF assms] by blast
  then show ?thesis
    by (simp add: planet_target_def Let_def attempt_def getattr_bound)
qed

text \<open>The two branches of \<open>create_target_list\<close>, by what the request for planets gave.\<close>

lemma has_planets_truthy: "has_planets src \<longleftrightarrow> truthy (snd (request_planets src))"
  by (simp add: has_planets_def request_planets_def truthy_def split: sum.splits)

lemma create_star_only:
  assumes "\<not> has_planets src" and "star_keys src = Inr sk" and "star_data src = Inr sd"
  shows "create_target_list L src =
           attempt_map (\<lambda>(i, star). star_target L sk (int i) star) (enumerate 0 sd)"
  using assms
  by (auto simp: create_target_list_def attempt_def has_planets_def request_planets_def truthy_def
      split: sum.splits)



lemma enumerate_nth: "i < length xs \<Longrightarrow> enumerate 0 xs ! i = (i, xs ! i)"
  by (simp add: nth_enumerate_eq)


text \<open>
  C5.  Let the request for the planet section fail, in \<open>planet_keys()\<close> or in
  \<open>planet_data()\<close>, or give no rows.  Then the outcome of \<open>create_target_list\<close> is
  that of assembling the star section alone, so that no exception of the planet readers
  reaches the caller.  If moreover the star section is readable and every star row binds
  a \<open>name\<close>, the call returns one target per star row; on every target \<open>planet\<close> is
  unset, so that reading it raises \<open>AttributeError\<close>, and the name is the name of the
  star sub-record.
\<close>

theorem star_only_fallback:
  assumes "(\<exists>e. planet_keys src = Inl e) \<or> (\<exists>e. planet_data src = Inl e) \<or> planet_data src = Inr []"
  shows "create_target_list L src =
           attempt (star_keys src) (\<lambda>sk.
           attempt (star_data src) (\<lambda>sd.
             attempt_map (\<lambda>(i, star). star_target L sk (int i) star) (enumerate 0 sd)))
         \<and> (\<forall>sk sd.
               logger_ok L \<and> star_keys src = Inr sk \<and> star_data src = Inr sd
               \<and> (\<forall>star \<in> set sd. ''name'' \<in> fst ` set (zip sk star))
               \<longrightarrow> (\<exists>ts. create_target_list L src = Inr ts \<and> length ts = length sd
                     \<and> (\<forall>i < length ts.
                           getattr L (PyObj (ts ! i)) ''planet'' = Inl (AttributeError ''planet'')
                           \<and> (\<exists>star nm. getattr L (PyObj (ts ! i)) ''star'' = Inr star
                                 \<and> getattr L star ''name'' = Inr nm
                                 \<and> getattr L (PyObj (ts ! i)) ''name'' = Inr nm))))"
proof -
  have absent: "\<not> has_planets src"
    using assms by (auto simp: has_planets_def split: sum.splits)
  then have first: "create_target_list L src =
           attempt (star_keys src) (\<lambda>sk.
           attempt (star_data src) (\<lambda>sd.
             attempt_map (\<lambda>(i, star). star_target L sk (int i) star) (enumerate 0 sd)))"
    by (auto simp: create_target_list_def attempt_def has_planets_def request_planets_def
        truthy_def split: sum.splits)
  have second: "\<exists>ts. create_target_list L src = Inr ts \<and> length ts = length sd
           \<and> (\<forall>i < length ts.
                 getattr L (PyObj (ts ! i)) ''planet'' = Inl (AttributeError ''planet'')
                 \<and> (\<exists>star nm. getattr L (PyObj (ts ! i)) ''star'' = Inr star
                       \<and> getattr L star ''name'' = Inr nm
                       \<and> getattr L (PyObj (ts ! i)) ''name'' = Inr nm))"
    if ok: "logger_ok L" and sk: "star_keys src = Inr sk" and sd: "star_data src = Inr sd"
      and names: "\<forall>star \<in> set sd. ''name'' \<in> fst ` set (zip sk star)"
    for sk sd
  proof -
    let ?f = "\<lambda>(i, star). star_target L sk (int i) star"
    have create: "create_target_list L src = attempt_map ?f (enumerate 0 sd)"
      by (rule create_star_only [OF absent sk sd])
    have "\<forall>x \<in> set (enumerate 0 sd). \<exists>y. ?f x = Inr y"
      using names star_target_returns [of sk _ L]
      by (auto simp: enumerate_eq_zip dest!: set_zip_rightD)
    from attempt_map_returns [OF this] obtain ts where ts: "attempt_map ?f (enumerate 0 sd) = Inr ts"
      by blast
    from attempt_map_nth [OF this] have len: "length ts = length sd"
      and each: "\<forall>i < length sd. ?f (enumerate 0 sd ! i) = Inr (ts ! i)"
      by simp_all
    have planet: "map_of (Target_init L) ''planet'' = None" "''planet'' \<notin> set (log_names L)"
      using logger_ok_field [OF ok, of "''planet''"]
      by (simp_all add: target_fields_def Target_init_attrs)
    have "getattr L (PyObj (ts ! i)) ''planet'' = Inl (AttributeError ''planet'')
          \<and> (\<exists>star nm. getattr L (PyObj (ts ! i)) ''star'' = Inr star
                \<and> getattr L star ''name'' = Inr nm
                \<and> getattr L (PyObj (ts ! i)) ''name'' = Inr nm)"
      if i: "i < length ts" for i
    proof -
      from each i len have "star_target L sk (int i) (sd ! i) = Inr (ts ! i)"
        by (simp add: enumerate_nth)
      from star_target_Inr [OF this] obtain nm where
        nm: "getattr L (PyObj (dict_update (py_dict (zip sk (sd ! i))) (Target_init L))) ''name''
               = Inr nm"
        and t: "ts ! i = AList.update ''name'' nm (AList.update ''id'' (PyInt (int i))
                  (AList.update ''star''
                     (PyObj (dict_update (py_dict (zip sk (sd ! i))) (Target_init L)))
                     (Target_init L)))"
        by blast
      have "map_of (ts ! i) ''planet'' = None"
        by (simp add: t update_conv' planet)
      then have "getattr L (PyObj (ts ! i)) ''planet'' = Inl (AttributeError ''planet'')"
        using planet(2) by (simp add: getattr_unbound Target_names_def)
      moreover have "getattr L (PyObj (ts ! i)) ''star''
               = Inr (PyObj (dict_update (py_dict (zip sk (sd ! i))) (Target_init L)))"
        and "getattr L (PyObj (ts ! i)) ''name'' = Inr nm"
        by (simp_all add: t getattr_bound update_conv')
      ultimately show ?thesis using nm by blast
    qed
    with create ts len show ?thesis by auto
  qed
  from first second show ?thesis by blast
qed

subsection \<open>Concrete runs\<close>



lemma demo_star_source:
  "CSV_source demo_units demo_star_table =
     \<lparr> star_keys = Inr [''name'', ''Teff''],
       star_data = Inr [[PyStr ''HD 209458'', PyOther (Number 6065 ''K'')],
                        [PyStr ''Sun'', PyOther (Number 5772 ''K'')]],
       planet_keys = Inr [],
       planet_data = Inr [] \<rparr>"
  by code_simp


theorem star_only_fallback_witness:
  "logger_ok demo_logger
   \<and> planet_data (CSV_source demo_units demo_star_table) = Inr []
   \<and> (\<exists>ts. create_target_list demo_logger (CSV_source demo_units demo_star_table) = Inr ts
         \<and> length ts = 2
         \<and> (\<forall>i < length ts.
               getattr demo_logger (PyObj (ts ! i)) ''planet'' = Inl (AttributeError ''planet'')
               \<and> (\<exists>star nm. getattr demo_logger (PyObj (ts ! i)) ''star'' = Inr star
                     \<and> getattr demo_logger star ''name'' = Inr nm
                     \<and> getattr demo_logger (PyObj (ts ! i)) ''name'' = Inr nm)))"
proof -
  let ?src = "CSV_source demo_units demo_star_table"
  let ?sd = "[[PyStr ''HD 209458'', PyOther (Number 6065 ''K'')],
              [PyStr ''Sun'', PyOther (Number 5772 ''K'')]]"
  have absent: "(\<exists>e. planet_keys ?src = Inl e) \<or> (\<exists>e. planet_data ?src = Inl e)
                 \<or> planet_data ?src = Inr []"
    by (simp add: demo_star_source)
  have sk: "star_keys ?src = Inr [''name'', ''Teff'']"
    and sd: "star_data ?src = Inr ?sd"
    by (simp_all add: demo_star_source)
  have names: "\<forall>star \<in> set ?sd. ''name'' \<in> fst ` set (zip [''name'', ''Teff''] star)"
    by simp
  have pd: "planet_data ?src = Inr []"
    by (simp add: demo_star_source)
  from star_only_fallback [OF absent, of demo_logger, THEN conjunct2, rule_format,
      of "[''name'', ''Teff'']" ?sd] logger_ok_demo sk sd names
  obtain ts where ts: "create_target_list demo_logger ?src = Inr ts"
    and len: "length ts = length ?sd"
    and each: "\<forall>i < length ts.
        getattr demo_logger (PyObj (ts ! i)) ''planet'' = Inl (AttributeError ''planet'')
        \<and> (\<exists>star nm. getattr demo_logger (PyObj (ts ! i)) ''star'' = Inr star
              \<and> getattr demo_logger star ''name'' = Inr nm
              \<and> getattr demo_logger (PyObj (ts ! i)) ''name'' = Inr nm)"
    by blast
  from len have "length ts = 2" by simp
  with logger_ok_demo pd ts each show ?thesis by blast
qed

section \<open>Properties of \<open>searchTarget\<close>\<close>

text \<open>\<open>contains\<close> is the substring relation.\<close>

lemma contains_iff: "contains sub s \<longleftrightarrow> (\<exists>ps ss. s = ps @ sub @ ss)"
proof (induction s)
  case Nil
  show ?case by auto
next
  case (Cons c cs)
  show ?case
  proof
    assume "contains sub (c # cs)"
    then consider "prefix sub (c # cs)" | "contains sub cs" by auto
    then show "\<exists>ps ss. c # cs = ps @ sub @ ss"
    proof cases
      case 1
      then obtain ss where "c # cs = sub @ ss" by (auto simp: prefix_def)
      then have "c # cs = [] @ sub @ ss" by simp
      then show ?thesis by blast
    next
      case 2
      with Cons.IH obtain ps ss where "cs = ps @ sub @ ss" by blast
      then have "c # cs = (c # ps) @ sub @ ss" by simp
      then show ?thesis by blast
    qed
  next
    assume "\<exists>ps ss. c # cs = ps @ sub @ ss"
    then obtain ps ss where eq: "c # cs = ps @ sub @ ss" by blast
    show "contains sub (c # cs)"
    proof (cases ps)
      case Nil
      with eq have "prefix sub (c # cs)" by (simp add: prefix_def)
      then show ?thesis by simp
    next
      case (Cons p ps')
      with eq have "cs = ps' @ sub @ ss" by simp
      with Cons.IH have "contains sub cs" by blast
      then show ?thesis by simp
    qed
  qed
qed

lemma target_matches_both:
  assumes "getattr L (PyObj t) ''star'' = Inr s" and "getattr L s ''name'' = Inr sn"
    and "getattr L (PyObj t) ''planet'' = Inr p" and "getattr L p ''name'' = Inr pn"
    and "re_search engine q (compactString (py_str repr sn)) = Inr ms"
    and "re_search engine q (compactString (py_str repr pn)) = Inr mp"
  shows "target_matches L engine repr q t = Inr (ms \<or> mp)"
  using assms by (simp add: target_matches_def name_matches_def attempt_def)

lemma search_loop_filter:
  assumes "\<forall>t \<in> set targets. target_matches L engine repr q t = Inr (m t)"
  shows "search_loop L engine repr q targets = Inr (filter m targets)"
  using assms by (induction targets) (simp_all add: attempt_def)

lemma search_loop_raises:
  assumes "target_matches L engine repr q t = Inl e"
  shows "search_loop L engine repr q (t # rest) = Inl e"
  using assms by (simp add: attempt_def)

lemma compact_paren: "compactString ''('' = ''(''"
  by code_simp

lemma compact_query: "compactString ''hd-209458 b'' = ''hd209458b''"
  by code_simp

text \<open>
  C4, as stated, promises a result for every query.  The query is handed to \<open>re.search\<close>
  as a pattern; \<open>(\<close> is not a valid pattern, and the search raises on the first
  target.
\<close>

theorem searchTarget_pattern_counterexample:
  "searchTarget demo_logger demo_engine demo_repr demo_targets ''('' = Inl ReError"
  by (simp add: searchTarget_def compact_paren demo_targets_def target_matches_def
      name_matches_def attempt_def getattr_def re_search_def alnum_def)

text \<open>
  C4, amended.  Let every target of the list have a star and a planet sub-record with a
  name, and let the regular-expression engine accept the normalised query on the
  normalised names.  Then \<open>searchTarget\<close> returns, in the order of the list, exactly
  the targets on which the normalised query matches the normalised star name or the
  normalised planet name.
\<close>

theorem searchTarget_filter:
  assumes "\<forall>t \<in> set targets.
             getattr L (PyObj t) ''star'' = Inr (star t)
             \<and> getattr L (star t) ''name'' = Inr (sname t)
             \<and> getattr L (PyObj t) ''planet'' = Inr (planet t)
             \<and> getattr L (planet t) ''name'' = Inr (pname t)"
    and "\<forall>t \<in> set targets.
           re_search engine (compactString name) (compactString (py_str repr (sname t)))
             = Inr (ms t)
           \<and> re_search engine (compactString name) (compactString (py_str repr (pname t)))
             = Inr (mp t)"
  shows "searchTarget L engine repr targets name = Inr (filter (\<lambda>t. ms t \<or> mp t) targets)"
proof -
  have "\<forall>t \<in> set targets.
          target_matches L engine repr (compactString name) t = Inr (ms t \<or> mp t)"
    using assms target_matches_both [of L _ _ _ _ _ engine "compactString name" repr]
    by blast
  from search_loop_filter [OF this] show ?thesis
    by (simp add: searchTarget_def)
qed

lemma alnum_query: "list_all alnum ''hd209458b''"
  by code_simp

lemma re_search_literal: "list_all alnum p \<Longrightarrow> re_search engine p s = Inr (contains p s)"
  by (simp add: re_search_def)

theorem searchTarget_filter_witness:
  "searchTarget demo_logger demo_engine demo_repr demo_targets ''hd-209458 b''
     = Inr [demo_targets ! 0]"
proof -
  let ?sub = "\<lambda>part t. case getattr demo_logger (PyObj t) part of Inr s \<Rightarrow> s | Inl _ \<Rightarrow> PyNone"
  let ?nm = "\<lambda>part t. case getattr demo_logger (?sub part t) ''name'' of
                         Inr n \<Rightarrow> n | Inl _ \<Rightarrow> PyNone"
  let ?m = "\<lambda>part t. contains ''hd209458b'' (compactString (py_str demo_repr (?nm part t)))"
  have a: "\<forall>t \<in> set demo_targets.
             getattr demo_logger (PyObj t) ''star'' = Inr (?sub ''star'' t)
             \<and> getattr demo_logger (?sub ''star'' t) ''name'' = Inr (?nm ''star'' t)
             \<and> getattr demo_logger (PyObj t) ''planet'' = Inr (?sub ''planet'' t)
             \<and> getattr demo_logger (?sub ''planet'' t) ''name'' = Inr (?nm ''planet'' t)"
    by (simp add: demo_targets_def getattr_def)
  have b: "\<forall>t \<in> set demo_targets.
             re_search demo_engine (compactString ''hd-209458 b'')
                 (compactString (py_str demo_repr (?nm ''star'' t))) = Inr (?m ''star'' t)
             \<and> re_search demo_engine (compactString ''hd-209458 b'')
                 (compactString (py_str demo_repr (?nm ''planet'' t))) = Inr (?m ''planet'' t)"
    by (simp add: compact_query re_search_literal [OF alnum_query])
  have "searchTarget demo_logger demo_engine demo_repr demo_targets ''hd-209458 b''
          = Inr (filter (\<lambda>t. ?m ''star'' t \<or> ?m ''planet'' t) demo_targets)"
    by (rule searchTarget_filter [OF a b])
  also have "filter (\<lambda>t. ?m ''star'' t \<or> ?m ''planet'' t) demo_targets = [demo_targets ! 0]"
    by code_simp
  finally show ?thesis .
qed

text \<open>
  A target without a planet, as the star-only branch of \<open>create_target_list\<close> makes
  them, ends the search with \<open>AttributeError\<close> as soon as its star name does not match.
\<close>

lemma searchTarget_star_only_raises:
  assumes "logger_ok L"
    and "getattr L (PyObj t) ''star'' = Inr s" and "getattr L s ''name'' = Inr sn"
    and "re_search engine (compactString name) (compactString (py_str repr sn)) = Inr False"
    and "map_of t ''planet'' = None"
  shows "searchTarget L engine repr (t # rest) name = Inl (AttributeError ''planet'')"
proof -
  have "''planet'' \<notin> set (log_names L)"
    using logger_ok_field [OF assms(1), of "''planet''"] by (simp add: target_fields_def)
  with assms(5) have "getattr L (PyObj t) ''planet'' = Inl (AttributeError ''planet'')"
    by (simp add: getattr_unbound Target_names_def)
  with assms(2-4) show ?thesis
    by (simp add: searchTarget_def target_matches_def name_matches_def attempt_def)
qed

section \<open>Properties of the delimited-text reader\<close>



lemma columns_of_iff:
  "k \<in> set (columns_of tok t) \<longleftrightarrow> k \<in> set (keys t) \<and> (\<exists>ps ss. k = ps @ tok @ ss)"
  by (simp add: columns_of_def contains_iff)














end
